theory Spec2Isabelle
  imports Complex_Main
begin

section \<open>Errors as values\<close>

text \<open>
  The pipeline of \<^verbatim>\<open>create_dataset.py\<close> never catches an exception: whatever a stage
  raises ends the run. Every function of the model returns \<open>error + 'a\<close>, with \<open>Inl\<close> the
  exception raised and \<open>Inr\<close> the value returned.
\<close>

datatype error =
    FileNotFoundError
  | KeyError
  | ValueError
  | IndexError
  | TypeError
  | AttributeError
  | OverflowError
  | InvalidIndexError

definition bindE :: "error + 'a \<Rightarrow> ('a \<Rightarrow> error + 'b) \<Rightarrow> error + 'b" where
  "bindE m f = (case m of Inl e \<Rightarrow> Inl e | Inr x \<Rightarrow> f x)"

text \<open>A comprehension or an \<^verbatim>\<open>apply\<close> runs left to right and stops at the first exception.\<close>

fun mapE :: "('a \<Rightarrow> error + 'b) \<Rightarrow> 'a list \<Rightarrow> error + 'b list" where
  "mapE f [] = Inr []"
| "mapE f (x # xs) =
     (case f x of
        Inl e \<Rightarrow> Inl e
      | Inr y \<Rightarrow> (case mapE f xs of Inl e \<Rightarrow> Inl e | Inr ys \<Rightarrow> Inr (y # ys)))"

section \<open>Cells and the string builtins of Python\<close>

text \<open>
  A cell of a table. \<open>NaN\<close> is the missing value of pandas, \<open>I\<close> a Python integer,
  \<open>S\<close> a text, \<open>L\<close> a Python list. A finite float is \<open>F q\<close> with \<open>q\<close> the exact decimal
  value of the literal it was read from; Python rounds that value to the nearest binary64,
  which the model leaves out. \<open>FInf neg\<close> is the float infinity, negative when \<open>neg\<close>.
  Cells are compared structurally: pandas keeps one dtype per column, and the model does
  not turn the integers of a column into floats when a missing value joins the column.
  Row labels are natural numbers and column labels are cells, as pandas takes any hashable
  value for a label.
\<close>

datatype cell = NaN | I int | F rat | FInf bool | S string | L "cell list"

text \<open>\<^verbatim>\<open>s.strip(chars)\<close>: drops the leading and the trailing characters that are in \<open>chars\<close>.\<close>

definition strip :: "string \<Rightarrow> string \<Rightarrow> string" where
  "strip chars s =
     rev (dropWhile (\<lambda>c. c \<in> set chars) (rev (dropWhile (\<lambda>c. c \<in> set chars) s)))"

text \<open>The ASCII characters that \<^verbatim>\<open>str.strip()\<close>, \<^verbatim>\<open>int\<close> and \<^verbatim>\<open>float\<close> take for whitespace.\<close>

definition whitespace :: string where
  "whitespace = [CHR 0x09, CHR 0x0A, CHR 0x0B, CHR 0x0C, CHR 0x0D,
                 CHR 0x1C, CHR 0x1D, CHR 0x1E, CHR 0x1F, CHR 0x20]"

text \<open>
  \<^verbatim>\<open>s.split(sep)\<close> for a separator that is not empty (the source splits at \<^verbatim>\<open>','\<close> and at
  \<^verbatim>\<open>', '\<close>): the pieces between the occurrences of \<open>sep\<close>, read left to right. The result
  always has at least one piece; the empty text gives the one empty piece.
\<close>

function split_acc :: "string \<Rightarrow> string \<Rightarrow> string \<Rightarrow> string list" where
  "split_acc sep acc [] = [rev acc]"
| "split_acc sep acc (c # cs) =
     (if sep \<noteq> [] \<and> take (length sep) (c # cs) = sep
      then rev acc # split_acc sep [] (drop (length sep) (c # cs))
      else split_acc sep (c # acc) cs)"
  by pat_completeness auto
termination
  by (relation "measure (\<lambda>(sep, acc, s). length s)") auto

definition split :: "string \<Rightarrow> string \<Rightarrow> string list" where
  "split sep s = split_acc sep [] s"

definition is_digit :: "char \<Rightarrow> bool" where
  "is_digit c = (48 \<le> (of_char c :: nat) \<and> (of_char c :: nat) \<le> 57)"

definition digit_value :: "char \<Rightarrow> nat" where
  "digit_value c = (of_char c :: nat) - 48"

definition digits_value :: "string \<Rightarrow> nat" where
  "digits_value ds = foldl (\<lambda>a c. 10 * a + digit_value c) 0 ds"

text \<open>
  A digit part of a numeric literal: decimal digits, with single underscores allowed
  between digits. \<open>Some ds\<close> are its digits, \<open>None\<close> says that the text is no digit part.
\<close>

definition digit_part :: "string \<Rightarrow> string option" where
  "digit_part s =
     (let groups = split ''_'' s
      in if list_all (\<lambda>g. g \<noteq> [] \<and> list_all is_digit g) groups
         then Some (concat groups) else None)"

definition signed :: "string \<Rightarrow> bool \<times> string" where
  "signed s =
     (case s of
        c # r \<Rightarrow> if c = CHR ''-'' then (True, r) else if c = CHR ''+'' then (False, r)
                 else (False, s)
      | [] \<Rightarrow> (False, s))"

text \<open>
  \<^verbatim>\<open>int(s)\<close> for a text: whitespace around the literal is dropped, a sign may lead, and
  the rest must be a digit part; anything else raises \<^verbatim>\<open>ValueError\<close>. Digits beyond ASCII
  are not modelled.
\<close>

definition py_int :: "string \<Rightarrow> error + int" where
  "py_int s =
     (let (neg, body) = signed (strip whitespace s)
      in case digit_part body of
           None \<Rightarrow> Inl ValueError
         | Some ds \<Rightarrow> Inr (if neg then - int (digits_value ds) else int (digits_value ds)))"

definition lower :: "char \<Rightarrow> char" where
  "lower c =
     (if 65 \<le> (of_char c :: nat) \<and> (of_char c :: nat) \<le> 90
      then char_of ((of_char c :: nat) + 32) else c)"

text \<open>The text before the first character satisfying \<open>p\<close>, and the text after it if there is one.\<close>

definition break_at :: "(char \<Rightarrow> bool) \<Rightarrow> string \<Rightarrow> string \<times> string option" where
  "break_at p s =
     (case dropWhile (\<lambda>c. \<not> p c) s of
        [] \<Rightarrow> (s, None)
      | _ # r \<Rightarrow> (takeWhile (\<lambda>c. \<not> p c) s, Some r))"

text \<open>A digit part that may be empty: the integer or the fraction digits of a float literal.\<close>

definition opt_digit_part :: "string \<Rightarrow> string option" where
  "opt_digit_part s = (if s = [] then Some [] else digit_part s)"

text \<open>The mantissa of a float literal: its digits, and how many of them follow the point.\<close>

definition mantissa :: "string \<Rightarrow> (string \<times> nat) option" where
  "mantissa m =
     (case break_at (\<lambda>c. c = CHR ''.'') m of
        (ip, None) \<Rightarrow> (case digit_part ip of None \<Rightarrow> None | Some ds \<Rightarrow> Some (ds, 0))
      | (ip, Some fp) \<Rightarrow>
          (case (opt_digit_part ip, opt_digit_part fp) of
             (Some a, Some b) \<Rightarrow> if a = [] \<and> b = [] then None else Some (a @ b, length b)
           | _ \<Rightarrow> None))"

text \<open>The exponent of a float literal: a sign may lead its digit part; no exponent is 0.\<close>

definition exponent :: "string option \<Rightarrow> int option" where
  "exponent e =
     (case e of
        None \<Rightarrow> Some 0
      | Some t \<Rightarrow>
          (let (neg, body) = signed t
           in case digit_part body of
                None \<Rightarrow> None
              | Some ds \<Rightarrow> Some (if neg then - int (digits_value ds) else int (digits_value ds))))"

definition scale10 :: "rat \<Rightarrow> int \<Rightarrow> rat" where
  "scale10 q k = (if 0 \<le> k then q * 10 ^ nat k else q / 10 ^ nat (- k))"

text \<open>
  \<^verbatim>\<open>float(s)\<close> for a text: whitespace around the literal is dropped, a sign may lead, and
  the rest is \<^verbatim>\<open>inf\<close>, \<^verbatim>\<open>infinity\<close> or \<^verbatim>\<open>nan\<close> in any case, or a decimal literal with an
  optional exponent; anything else raises \<^verbatim>\<open>ValueError\<close>. The value of a decimal literal is
  kept exact (see \<^typ>\<open>cell\<close>).
\<close>

definition py_float :: "string \<Rightarrow> error + cell" where
  "py_float s =
     (let (neg, body) = signed (strip whitespace s);
          low = map lower body
      in if low = ''inf'' \<or> low = ''infinity'' then Inr (FInf neg)
         else if low = ''nan'' then Inr NaN
         else
           (case break_at (\<lambda>c. c = CHR ''e'' \<or> c = CHR ''E'') body of
              (m, e) \<Rightarrow>
                (case (mantissa m, exponent e) of
                   (Some (ds, k), Some x) \<Rightarrow>
                     Inr (F (scale10 (if neg then - of_nat (digits_value ds)
                                      else of_nat (digits_value ds)) (x - int k)))
                 | _ \<Rightarrow> Inl ValueError)))"

text \<open>\<^verbatim>\<open>str(n)\<close> for an integer.\<close>

fun str_nat :: "nat \<Rightarrow> string" where
  "str_nat n =
     (if n < 10 then [char_of (48 + n)] else str_nat (n div 10) @ [char_of (48 + n mod 10)])"

definition str_int :: "int \<Rightarrow> string" where
  "str_int i = (if i < 0 then CHR ''-'' # str_nat (nat (- i)) else str_nat (nat i))"

text \<open>
  \<^verbatim>\<open>int(x)\<close> for a cell: an integer is itself, a finite float is truncated towards zero,
  a text is parsed; the missing value and the infinities cannot be converted, and a list
  is a type error.
\<close>

definition int_of_cell :: "cell \<Rightarrow> error + int" where
  "int_of_cell x =
     (case x of
        I i \<Rightarrow> Inr i
      | F q \<Rightarrow> Inr (if 0 \<le> q then \<lfloor>q\<rfloor> else \<lceil>q\<rceil>)
      | S s \<Rightarrow> py_int s
      | NaN \<Rightarrow> Inl ValueError
      | FInf b \<Rightarrow> Inl OverflowError
      | L xs \<Rightarrow> Inl TypeError)"

text \<open>\<^verbatim>\<open>x == n\<close> for a cell and an integer: an integer and a float are compared by value.\<close>

definition cell_eq_int :: "cell \<Rightarrow> int \<Rightarrow> bool" where
  "cell_eq_int x n = (x = I n \<or> x = F (of_int n))"

text \<open>
  The text of a label inside an f-string, as \<^verbatim>\<open>add_prefix\<close> and the suffixes of
  \<^verbatim>\<open>merge\<close> build it. The source only ever formats integer and text labels; the text of
  a float or list label is not modelled.
\<close>

definition str_label :: "cell \<Rightarrow> string" where
  "str_label c = (case c of S s \<Rightarrow> s | I i \<Rightarrow> str_int i | NaN \<Rightarrow> ''nan'' | _ \<Rightarrow> [])"

section \<open>The fragment of pandas that the pipeline uses\<close>

text \<open>
  A DataFrame: the row labels (\<^verbatim>\<open>df.index\<close>), the column labels (\<^verbatim>\<open>df.columns\<close>) and
  the cells, one list per row. In a well-formed frame there is one label per row and every
  row has one cell per column.
\<close>

record dataframe =
  index :: "nat list"
  columns :: "cell list"
  rows :: "cell list list"

definition wf_df :: "dataframe \<Rightarrow> bool" where
  "wf_df df =
     (length (index df) = length (rows df) \<and>
      list_all (\<lambda>r. length r = length (columns df)) (rows df))"

text \<open>
  The files of the run: what \<^verbatim>\<open>read_csv\<close> parses from each path that exists. Parsing the
  text of a CSV file is the library's work and is not modelled. A frame read from a file
  is labelled \<open>0, 1, 2, \<dots>\<close>
\<close>

type_synonym files = "string \<Rightarrow> dataframe option"

definition read_csv :: "files \<Rightarrow> string \<Rightarrow> error + dataframe" where
  "read_csv fs path =
     (case fs path of
        None \<Rightarrow> Inl FileNotFoundError
      | Some df \<Rightarrow> Inr (df\<lparr>index := [0..<length (rows df)]\<rparr>))"

text \<open>\<^verbatim>\<open>df.to_csv(path, index=False)\<close>: the row labels are not written.\<close>

definition to_csv :: "files \<Rightarrow> string \<Rightarrow> dataframe \<Rightarrow> files" where
  "to_csv fs path df = fs(path \<mapsto> df\<lparr>index := [0..<length (rows df)]\<rparr>)"

text \<open>The position of the first column labelled \<open>c\<close>.\<close>

fun position :: "cell \<Rightarrow> cell list \<Rightarrow> nat option" where
  "position c [] = None"
| "position c (x # xs) =
     (if x = c then Some 0 else (case position c xs of None \<Rightarrow> None | Some j \<Rightarrow> Some (Suc j)))"

definition cell_at :: "cell list \<Rightarrow> nat \<Rightarrow> cell" where
  "cell_at r j = (if j < length r then r ! j else NaN)"

text \<open>
  \<^verbatim>\<open>df[c]\<close>: the cells of column \<open>c\<close>, top to bottom; \<^verbatim>\<open>KeyError\<close> when no column has that
  label. (Two columns with one label, where pandas would answer with a frame, do not occur
  where the source reads a column.)
\<close>

definition getcol :: "dataframe \<Rightarrow> cell \<Rightarrow> error + cell list" where
  "getcol df c =
     (case position c (columns df) of
        None \<Rightarrow> Inl KeyError
      | Some j \<Rightarrow> Inr (map (\<lambda>r. cell_at r j) (rows df)))"

text \<open>\<^verbatim>\<open>df[c] = values\<close> for the values of a column computed from \<open>df\<close> itself, row by row.\<close>

definition setcol :: "dataframe \<Rightarrow> cell \<Rightarrow> cell list \<Rightarrow> dataframe" where
  "setcol df c vs =
     (case position c (columns df) of
        None \<Rightarrow> df\<lparr>columns := columns df @ [c], rows := map2 (\<lambda>r v. r @ [v]) (rows df) vs\<rparr>
      | Some j \<Rightarrow> df\<lparr>rows := map2 (\<lambda>r v. r[j := v]) (rows df) vs\<rparr>)"

text \<open>The elements of \<open>xs\<close> at the positions where \<open>keep\<close> is \<open>True\<close>.\<close>

definition select :: "bool list \<Rightarrow> 'a list \<Rightarrow> 'a list" where
  "select keep xs = map fst (filter snd (zip xs keep))"

text \<open>\<^verbatim>\<open>df.drop(columns=cs)\<close>: \<^verbatim>\<open>KeyError\<close> when a label of \<open>cs\<close> is no column of \<open>df\<close>.\<close>

definition drop_columns :: "cell list \<Rightarrow> dataframe \<Rightarrow> error + dataframe" where
  "drop_columns cs df =
     (if list_ex (\<lambda>c. c \<notin> set (columns df)) cs then Inl KeyError
      else
        (let keep = map (\<lambda>c. c \<notin> set cs) (columns df)
         in Inr (df\<lparr>columns := select keep (columns df),
                    rows := map (select keep) (rows df)\<rparr>)))"

text \<open>\<^verbatim>\<open>df[mask]\<close>: the rows where the mask holds; they keep their labels.\<close>

definition mask_rows :: "dataframe \<Rightarrow> bool list \<Rightarrow> dataframe" where
  "mask_rows df m = df\<lparr>index := select m (index df), rows := select m (rows df)\<rparr>"

text \<open>\<^verbatim>\<open>df.dropna(subset=[c])\<close>: the rows whose cell in column \<open>c\<close> is not missing.\<close>

definition dropna :: "cell \<Rightarrow> dataframe \<Rightarrow> error + dataframe" where
  "dropna c df = bindE (getcol df c) (\<lambda>col. Inr (mask_rows df (map (\<lambda>x. x \<noteq> NaN) col)))"

text \<open>\<^verbatim>\<open>df.rename(columns=mapper)\<close> for a dict \<open>mapper\<close>: a label outside the dict stays.\<close>

definition rename :: "(cell \<times> cell) list \<Rightarrow> dataframe \<Rightarrow> dataframe" where
  "rename mapper df =
     df\<lparr>columns := map (\<lambda>c. case map_of mapper c of None \<Rightarrow> c | Some v \<Rightarrow> v) (columns df)\<rparr>"

text \<open>The distinct elements of a list in the order of their first appearance.\<close>

definition uniques :: "'a list \<Rightarrow> 'a list" where
  "uniques xs = rev (remdups (rev xs))"

text \<open>
  \<^verbatim>\<open>series.value_counts()\<close>: each value that is not missing with the number of its
  occurrences, the most frequent first. Values with equal counts stand in the order of
  their first appearance (the sort is stable).
\<close>

definition value_counts :: "cell list \<Rightarrow> (cell \<times> nat) list" where
  "value_counts col =
     (let xs = filter (\<lambda>x. x \<noteq> NaN) col
      in sort_key (\<lambda>(k, n). - int n) (map (\<lambda>k. (k, count_list xs k)) (uniques xs)))"

text \<open>\<^verbatim>\<open>series.isin(values)\<close>.\<close>

definition isin :: "cell list \<Rightarrow> cell list \<Rightarrow> bool list" where
  "isin col vs = map (\<lambda>x. x \<in> set vs) col"

text \<open>\<^verbatim>\<open>series.astype(int)\<close>: every cell is converted; the first that cannot be raises.\<close>

definition astype_int :: "cell list \<Rightarrow> error + cell list" where
  "astype_int col = mapE (\<lambda>x. bindE (int_of_cell x) (\<lambda>i. Inr (I i))) col"

text \<open>
  \<^verbatim>\<open>pd.merge(left, right, left_on=lk, right_on=rk, how='left')\<close>: every row of \<open>left\<close>, in
  order, beside each row of \<open>right\<close> with the same key, or beside missing values when
  there is none. A label that both frames have gets the suffix \<^verbatim>\<open>_x\<close> on the left and
  \<^verbatim>\<open>_y\<close> on the right. The result is labelled \<open>0, 1, 2, \<dots>\<close>
\<close>

definition suffixed :: "cell list \<Rightarrow> string \<Rightarrow> cell \<Rightarrow> cell" where
  "suffixed others suffix c = (if c \<in> set others then S (str_label c @ suffix) else c)"

definition merge_left :: "dataframe \<Rightarrow> dataframe \<Rightarrow> cell \<Rightarrow> cell \<Rightarrow> error + dataframe" where
  "merge_left left right lk rk =
     bindE (getcol left lk) (\<lambda>lkeys.
     bindE (getcol right rk) (\<lambda>rkeys.
       (let missing = replicate (length (columns right)) NaN;
            joined = concat (map (\<lambda>(lrow, k).
                        (let ms = map fst (filter (\<lambda>(rrow, k'). k' = k) (zip (rows right) rkeys))
                         in if ms = [] then [lrow @ missing] else map (\<lambda>rrow. lrow @ rrow) ms))
                      (zip (rows left) lkeys))
        in Inr \<lparr>index = [0..<length joined],
                columns = map (suffixed (columns right) ''_x'') (columns left) @
                          map (suffixed (columns left) ''_y'') (columns right),
                rows = joined\<rparr>)))"

text \<open>
  \<^verbatim>\<open>pd.DataFrame(data)\<close> and \<^verbatim>\<open>pd.DataFrame(data, columns=names)\<close> for a list of lists. The
  frame is as wide as the longest list; a shorter list is filled up with missing values.
  With \<open>names\<close> given, data of another width raises \<^verbatim>\<open>ValueError\<close>; without, the columns
  are labelled \<open>0, 1, 2, \<dots>\<close> No data gives a frame without rows.
\<close>

definition width :: "cell list list \<Rightarrow> nat" where
  "width data = foldr (\<lambda>r w. max (length r) w) data 0"

definition pad :: "nat \<Rightarrow> cell list \<Rightarrow> cell list" where
  "pad w r = r @ replicate (w - length r) NaN"

definition from_lists :: "cell list list \<Rightarrow> cell list option \<Rightarrow> error + dataframe" where
  "from_lists data names =
     (if data = [] then
        Inr \<lparr>index = [], columns = (case names of None \<Rightarrow> [] | Some cs \<Rightarrow> cs), rows = []\<rparr>
      else
        (case names of
           None \<Rightarrow>
             Inr \<lparr>index = [0..<length data],
                  columns = map (\<lambda>j. I (int j)) [0..<width data],
                  rows = map (pad (width data)) data\<rparr>
         | Some cs \<Rightarrow>
             if length cs \<noteq> width data then Inl ValueError
             else Inr \<lparr>index = [0..<length data], columns = cs,
                       rows = map (pad (width data)) data\<rparr>))"

text \<open>\<^verbatim>\<open>df.add_prefix(p)\<close>.\<close>

definition add_prefix :: "string \<Rightarrow> dataframe \<Rightarrow> dataframe" where
  "add_prefix p df = df\<lparr>columns := map (\<lambda>c. S (p @ str_label c)) (columns df)\<rparr>"

text \<open>\<^verbatim>\<open>df.astype(int)\<close>: every cell of the frame.\<close>

definition astype_int_df :: "dataframe \<Rightarrow> error + dataframe" where
  "astype_int_df df = bindE (mapE astype_int (rows df)) (\<lambda>rs. Inr (df\<lparr>rows := rs\<rparr>))"

text \<open>
  \<^verbatim>\<open>pd.concat([a, b], axis=1)\<close>: the columns of \<open>a\<close> beside the columns of \<open>b\<close>, the rows
  matched by their labels. When both frames carry the same labels the rows pair up as
  they stand. Otherwise the result has every label of either frame (those of \<open>a\<close> first),
  a frame contributes missing values to a label it does not have, and a frame with a
  repeated label cannot be aligned.
\<close>

definition row_at :: "dataframe \<Rightarrow> nat \<Rightarrow> cell list" where
  "row_at df i =
     (case map_of (zip (index df) (rows df)) i of
        None \<Rightarrow> replicate (length (columns df)) NaN
      | Some r \<Rightarrow> r)"

definition concat_columns :: "dataframe \<Rightarrow> dataframe \<Rightarrow> error + dataframe" where
  "concat_columns a b =
     (if index a = index b then
        Inr \<lparr>index = index a, columns = columns a @ columns b,
             rows = map2 (@) (rows a) (rows b)\<rparr>
      else if \<not> distinct (index a) \<or> \<not> distinct (index b) then Inl InvalidIndexError
      else
        (let idx = index a @ filter (\<lambda>i. i \<notin> set (index a)) (index b)
         in Inr \<lparr>index = idx, columns = columns a @ columns b,
                 rows = map (\<lambda>i. row_at a i @ row_at b i) idx\<rparr>))"

text \<open>
  \<^verbatim>\<open>pd.concat([a, b])\<close> for two frames with the same columns: the rows of \<open>b\<close> under the
  rows of \<open>a\<close>.
\<close>

definition concat_rows :: "dataframe \<Rightarrow> dataframe \<Rightarrow> dataframe" where
  "concat_rows a b = a\<lparr>index := index a @ index b, rows := rows a @ rows b\<rparr>"

text \<open>
  \<^verbatim>\<open>pd.DataFrame(records)\<close> for a list of dicts: one row per dict, the columns are the keys
  in the order of their first appearance, and a key a dict lacks is a missing value.
\<close>

definition from_dicts :: "(cell \<times> cell) list list \<Rightarrow> dataframe" where
  "from_dicts ds =
     (let cs = uniques (concat (map (map fst) ds))
      in \<lparr>index = [0..<length ds], columns = cs,
          rows = map (\<lambda>d. map (\<lambda>c. case map_of d c of None \<Rightarrow> NaN | Some v \<Rightarrow> v) cs) ds\<rparr>)"

text \<open>\<^verbatim>\<open>df.fillna(v)\<close>.\<close>

definition fillna :: "cell \<Rightarrow> dataframe \<Rightarrow> dataframe" where
  "fillna v df = df\<lparr>rows := map (map (\<lambda>x. if x = NaN then v else x)) (rows df)\<rparr>"

section \<open>Interaction filter\<close>

text \<open>\<^verbatim>\<open>series.value_counts().head(n).index\<close>: the \<open>n\<close> most frequent values of a column.\<close>

definition top_ids :: "nat \<Rightarrow> cell list \<Rightarrow> cell list" where
  "top_ids n col = map fst (take n (value_counts col))"

text \<open>\<^verbatim>\<open>df[c] = df[c].astype(int)\<close>.\<close>

definition cast_column :: "cell \<Rightarrow> dataframe \<Rightarrow> error + dataframe" where
  "cast_column c df =
     bindE (getcol df c) (\<lambda>col.
     bindE (astype_int col) (\<lambda>ints. Inr (setcol df c ints)))"

text \<open>\<^verbatim>\<open>filter_interactions(csv_file)\<close>, lines 17 to 36 of \<^verbatim>\<open>create_dataset.py\<close>.\<close>

definition filter_interactions :: "files \<Rightarrow> string \<Rightarrow> error + dataframe" where
  "filter_interactions fs csv_file =
     bindE (read_csv fs csv_file) (\<lambda>df0.
     bindE (drop_columns [S ''review'', S ''date''] df0) (\<lambda>df.
     bindE (getcol df (S ''recipe_id'')) (\<lambda>recipe_ids.
     bindE (getcol df (S ''user_id'')) (\<lambda>user_ids.
       (let top_recipe_ids = top_ids 100 recipe_ids;
            top_user_ids = top_ids 30000 user_ids;
            df_filtered = mask_rows df (map2 (\<and>) (isin recipe_ids top_recipe_ids)
                                                    (isin user_ids top_user_ids))
        in bindE (cast_column (S ''user_id'') df_filtered) (\<lambda>df1.
           bindE (cast_column (S ''recipe_id'') df1) (\<lambda>df2.
           cast_column (S ''rating'') df2)))))))"

section \<open>Ingredient name mapper\<close>

text \<open>
  \<^verbatim>\<open>filter_ingredient_mapping\<close> renames the columns of the frame it is given with
  \<^verbatim>\<open>inplace=True\<close> and returns that frame. What the caller sees afterwards depends on
  this, so the frame is passed by reference: a store maps references to frames, and the
  function takes and returns a reference and the store.
\<close>

type_synonym ref = nat
type_synonym store = "ref \<Rightarrow> dataframe"

definition empty_df :: dataframe where
  "empty_df = \<lparr>index = [], columns = [], rows = []\<rparr>"

text \<open>
  The first loop, lines 139 to 142: for every column of the one-hot table, the rows of the
  mapping table whose \<^verbatim>\<open>id\<close> equals \<^verbatim>\<open>int(column)\<close> are appended to
  \<^verbatim>\<open>filtered_ingredients_df\<close>.
\<close>

fun collect_mapping_rows :: "dataframe \<Rightarrow> dataframe \<Rightarrow> cell list \<Rightarrow> error + dataframe" where
  "collect_mapping_rows all_ingredients_df acc [] = Inr acc"
| "collect_mapping_rows all_ingredients_df acc (column # cs) =
     (case getcol all_ingredients_df (S ''id'') of
        Inl e \<Rightarrow> Inl e
      | Inr ids \<Rightarrow>
          (case int_of_cell column of
             Inl e \<Rightarrow> Inl e
           | Inr n \<Rightarrow>
               collect_mapping_rows all_ingredients_df
                 (concat_rows acc (mask_rows all_ingredients_df (map (\<lambda>x. cell_eq_int x n) ids)))
                 cs))"

text \<open>
  Lines 149 and 150:
  \<^verbatim>\<open>filtered_ingredients_df.loc[filtered_ingredients_df['id'] == int(column), 'replaced'].values[0]\<close>.
  Reading element 0 of no values raises \<^verbatim>\<open>IndexError\<close>.
\<close>

definition replacement_value :: "dataframe \<Rightarrow> cell \<Rightarrow> error + cell" where
  "replacement_value filtered_ingredients_df column =
     bindE (getcol filtered_ingredients_df (S ''id'')) (\<lambda>ids.
     bindE (int_of_cell column) (\<lambda>n.
     bindE (getcol filtered_ingredients_df (S ''replaced'')) (\<lambda>replaced.
       (case select (map (\<lambda>x. cell_eq_int x n) ids) replaced of
          [] \<Rightarrow> Inl IndexError
        | v # _ \<Rightarrow> Inr v))))"

text \<open>
  The second loop, lines 148 to 151. It runs over the column labels the frame had when
  the loop began; each round renames, in the frame the reference points to, the columns
  that carry the label of the round. An exception leaves the renames made so far.
\<close>

fun rename_columns :: "dataframe \<Rightarrow> ref \<Rightarrow> cell list \<Rightarrow> store \<Rightarrow> store \<times> (error + unit)" where
  "rename_columns filtered_ingredients_df r [] h = (h, Inr ())"
| "rename_columns filtered_ingredients_df r (column # cs) h =
     (case replacement_value filtered_ingredients_df column of
        Inl e \<Rightarrow> (h, Inl e)
      | Inr v \<Rightarrow>
          rename_columns filtered_ingredients_df r cs (h(r := rename [(column, v)] (h r))))"

text \<open>\<^verbatim>\<open>filter_ingredient_mapping(ingredient_mapping_csv, ingredients_df)\<close>, lines 136 to 156.\<close>

definition filter_ingredient_mapping ::
  "files \<Rightarrow> string \<Rightarrow> ref \<Rightarrow> store \<Rightarrow> store \<times> (error + ref)" where
  "filter_ingredient_mapping fs ingredient_mapping_csv ingredients_df h =
     (case read_csv fs ingredient_mapping_csv of
        Inl e \<Rightarrow> (h, Inl e)
      | Inr all_ingredients_df \<Rightarrow>
          (case collect_mapping_rows all_ingredients_df
                  (empty_df\<lparr>columns := columns all_ingredients_df\<rparr>)
                  (columns (h ingredients_df)) of
             Inl e \<Rightarrow> (h, Inl e)
           | Inr filtered_ingredients_df \<Rightarrow>
               (case rename_columns filtered_ingredients_df ingredients_df
                       (columns (h ingredients_df)) h of
                  (h', Inl e) \<Rightarrow> (h', Inl e)
                | (h', Inr u) \<Rightarrow> (h', Inr ingredients_df))))"

section \<open>Recipe processor\<close>

text \<open>Line 68: \<^verbatim>\<open>lambda x: [int(i.strip()) for i in x.strip('[]').split(',')]\<close>.\<close>

definition parse_techniques :: "cell \<Rightarrow> error + cell list" where
  "parse_techniques x =
     (case x of
        S s \<Rightarrow> mapE (\<lambda>i. bindE (py_int (strip whitespace i)) (\<lambda>n. Inr (I n)))
                 (split '','' (strip ''[]'' s))
      | _ \<Rightarrow> Inl AttributeError)"

text \<open>Lines 85 to 87 and line 92: \<^verbatim>\<open>[int(id_str) for id_str in x.strip('[]').split(', ')]\<close>.\<close>

definition parse_ingredient_ids :: "cell \<Rightarrow> error + int list" where
  "parse_ingredient_ids x =
     (case x of
        S s \<Rightarrow> mapE py_int (split '', '' (strip ''[]'' s))
      | _ \<Rightarrow> Inl AttributeError)"

text \<open>Lines 52 to 64: the recipe table joined onto the interactions, rows without techniques dropped.\<close>

definition merge_recipes :: "files \<Rightarrow> dataframe \<Rightarrow> string \<Rightarrow> error + dataframe" where
  "merge_recipes fs filtered_df recipe_csv =
     bindE (read_csv fs recipe_csv) (\<lambda>recipe_df0.
     bindE (drop_columns [S ''name_tokens'', S ''ingredient_tokens'', S ''steps_tokens'']
              recipe_df0) (\<lambda>recipe_df.
     bindE (merge_left filtered_df recipe_df (S ''recipe_id'') (S ''id'')) (\<lambda>merged_df.
     dropna (S ''techniques'') (rename [(S ''i'', S ''recipe_id_mapped'')] merged_df))))"

text \<open>
  Lines 67 to 80: the techniques cells are parsed and expanded into the columns
  \<^verbatim>\<open>technique_0\<close>, \<^verbatim>\<open>technique_1\<close>, \<dots> The result is \<^verbatim>\<open>merged_df\<close> with the parsed lists and
  \<^verbatim>\<open>processed_df\<close>.
\<close>

definition expand_techniques :: "dataframe \<Rightarrow> error + dataframe \<times> dataframe" where
  "expand_techniques merged_df0 =
     bindE (getcol merged_df0 (S ''techniques'')) (\<lambda>col.
     bindE (mapE parse_techniques col) (\<lambda>parsed.
     bindE (from_lists parsed None) (\<lambda>t.
     bindE (astype_int_df (add_prefix ''technique_'' t)) (\<lambda>techniques_df.
       (let merged_df = setcol merged_df0 (S ''techniques'') (map L parsed)
        in bindE (concat_columns merged_df techniques_df) (\<lambda>processed_df0.
           bindE (drop_columns [S ''techniques''] processed_df0) (\<lambda>processed_df.
           Inr (merged_df, processed_df))))))))"

text \<open>
  Lines 83 to 87: the set of the ingredient ids of all rows. A Python set has no order
  that a program may rely on; the model keeps the ids in the order in which they were
  added, and no theorem below depends on that order.
\<close>

definition add_id :: "int list \<Rightarrow> int \<Rightarrow> int list" where
  "add_id u i = (if i \<in> set u then u else u @ [i])"

fun collect_ingredient_ids :: "int list \<Rightarrow> cell list \<Rightarrow> error + int list" where
  "collect_ingredient_ids u [] = Inr u"
| "collect_ingredient_ids u (x # xs) =
     (case parse_ingredient_ids x of
        Inl e \<Rightarrow> Inl e
      | Inr ids \<Rightarrow> collect_ingredient_ids (foldl add_id u ids) xs)"

text \<open>Lines 95 to 100: the dict of one row, 1 for an id of the row and 0 for any other.\<close>

definition ingredient_row :: "int list \<Rightarrow> int list \<Rightarrow> (cell \<times> cell) list" where
  "ingredient_row unique_ingredient_ids ingredient_ids =
     map (\<lambda>id_val. (I id_val, I (if id_val \<in> set ingredient_ids then 1 else 0)))
       unique_ingredient_ids"

text \<open>Lines 83 to 108: the one-hot table of the ingredient column.\<close>

definition one_hot_ingredients :: "cell list \<Rightarrow> error + dataframe" where
  "one_hot_ingredients col =
     bindE (collect_ingredient_ids [] col) (\<lambda>unique_ingredient_ids.
     bindE (mapE (\<lambda>x. bindE (parse_ingredient_ids x)
                    (\<lambda>ids. Inr (ingredient_row unique_ingredient_ids ids))) col)
       (\<lambda>ingredient_rows. Inr (fillna (I 0) (from_dicts ingredient_rows))))"

text \<open>
  \<^verbatim>\<open>process_recipe_data(filtered_df, recipe_csv)\<close>, lines 52 to 120. The one-hot table is
  the one frame of the function that another function changes, so it alone lives in the
  store.
\<close>

definition process_recipe_data :: "files \<Rightarrow> dataframe \<Rightarrow> string \<Rightarrow> error + dataframe" where
  "process_recipe_data fs filtered_df recipe_csv =
     bindE (merge_recipes fs filtered_df recipe_csv) (\<lambda>merged_df0.
     bindE (expand_techniques merged_df0) (\<lambda>(merged_df, processed_df).
     bindE (getcol merged_df (S ''ingredient_ids'')) (\<lambda>col.
     bindE (one_hot_ingredients col) (\<lambda>ingredients_df.
       (case filter_ingredient_mapping fs ''ingredient_mapping.csv'' 0
               ((\<lambda>r. empty_df)(0 := ingredients_df)) of
          (h, Inl e) \<Rightarrow> Inl e
        | (h, Inr r) \<Rightarrow>
            bindE (concat_columns processed_df (h r)) (\<lambda>processed_df1.
            drop_columns [S ''ingredient_ids''] processed_df1))))))"

section \<open>Raw recipe joiner\<close>

text \<open>\<^verbatim>\<open>process_raw_recipes(raw_recipes_csv, processed_df)\<close>, lines 172 to 195.\<close>

definition process_raw_recipes :: "files \<Rightarrow> string \<Rightarrow> dataframe \<Rightarrow> error + dataframe" where
  "process_raw_recipes fs raw_recipes_csv processed_df =
     bindE (read_csv fs raw_recipes_csv) (\<lambda>raw_recipe_df0.
     bindE (drop_columns [S ''contributor_id'', S ''submitted'', S ''tags'', S ''steps'',
                          S ''description'', S ''ingredients''] raw_recipe_df0) (\<lambda>raw_recipe_df.
     bindE (getcol raw_recipe_df (S ''id'')) (\<lambda>ids.
     bindE (getcol processed_df (S ''recipe_id'')) (\<lambda>recipe_ids.
     bindE (merge_left processed_df (mask_rows raw_recipe_df (isin ids recipe_ids))
              (S ''recipe_id'') (S ''id'')) (\<lambda>processed_df_mapped.
     drop_columns [S ''id_y''] (rename [(S ''id_x'', S ''id'')] processed_df_mapped))))))"

section \<open>Nutrition expander\<close>

text \<open>Line 212: \<^verbatim>\<open>lambda x: [float(i) for i in x.strip('[]').split(',')]\<close>.\<close>

definition parse_nutrition :: "cell \<Rightarrow> error + cell list" where
  "parse_nutrition x =
     (case x of
        S s \<Rightarrow> mapE py_float (split '','' (strip ''[]'' s))
      | _ \<Rightarrow> Inl AttributeError)"

definition nutrition_columns :: "cell list" where
  "nutrition_columns =
     [S ''calories'', S ''percent_fat'', S ''percent_sugar'', S ''percent_sodium'',
      S ''percent_protein'', S ''percent_sat_fat'', S ''percent_carb'']"

text \<open>\<^verbatim>\<open>process_nutrition_column(df)\<close>, lines 209 to 225.\<close>

definition process_nutrition_column :: "dataframe \<Rightarrow> error + dataframe" where
  "process_nutrition_column df0 =
     bindE (dropna (S ''nutrition'') df0) (\<lambda>df1.
     bindE (getcol df1 (S ''nutrition'')) (\<lambda>col.
     bindE (mapE parse_nutrition col) (\<lambda>parsed.
       (let df = setcol df1 (S ''nutrition'') (map L parsed)
        in bindE (from_lists parsed (Some nutrition_columns)) (\<lambda>nutrition_df.
           bindE (concat_columns df nutrition_df) (\<lambda>processed_df.
           drop_columns [S ''nutrition''] processed_df))))))"

section \<open>The pipeline\<close>

text \<open>
  \<^verbatim>\<open>main()\<close>, lines 230 to 271: the four stages in order, then the one write of the run.
  The result is the files after the run and the exception that ended it, if any. What
  \<^verbatim>\<open>main\<close> prints to the console between the stages is not modelled.
\<close>

definition main :: "files \<Rightarrow> files \<times> (error + unit)" where
  "main fs =
     (case filter_interactions fs ''RAW_interactions.csv'' of
        Inl e \<Rightarrow> (fs, Inl e)
      | Inr filtered_df \<Rightarrow>
          (case process_recipe_data fs filtered_df ''PP_recipes.csv'' of
             Inl e \<Rightarrow> (fs, Inl e)
           | Inr processed_df \<Rightarrow>
               (case process_raw_recipes fs ''RAW_recipes.csv'' processed_df of
                  Inl e \<Rightarrow> (fs, Inl e)
                | Inr longer_processed_df \<Rightarrow>
                    (case process_nutrition_column longer_processed_df of
                       Inl e \<Rightarrow> (fs, Inl e)
                     | Inr added_nutrition_df \<Rightarrow>
                         (to_csv fs ''final_dataset.csv'' added_nutrition_df, Inr ())))))"

section \<open>Quantities the properties speak of\<close>

text \<open>The sum of the cells of a row of indicators; a cell that is no integer counts 0.\<close>

definition cell_value :: "cell \<Rightarrow> int" where
  "cell_value x = (case x of I i \<Rightarrow> i | _ \<Rightarrow> 0)"

definition row_sum :: "cell list \<Rightarrow> int" where
  "row_sum r = sum_list (map cell_value r)"

text \<open>The cell of the row labelled \<open>i\<close> in column \<open>c\<close>, if the frame has such a row and column.\<close>

definition cell_of :: "dataframe \<Rightarrow> nat \<Rightarrow> cell \<Rightarrow> cell option" where
  "cell_of df i c =
     (case (map_of (zip (index df) (rows df)) i, position c (columns df)) of
        (Some r, Some j) \<Rightarrow> Some (cell_at r j)
      | _ \<Rightarrow> None)"

section \<open>Example inputs\<close>

text \<open>Two interactions; only the recipe of the second is in the recipe table.\<close>

definition two_interactions :: dataframe where
  "two_interactions =
     \<lparr>index = [0, 1], columns = [S ''user_id'', S ''recipe_id'', S ''rating''],
      rows = [[I 10, I 1, I 5], [I 11, I 2, I 4]]\<rparr>"

definition one_recipe_files :: files where
  "one_recipe_files =
     [''PP_recipes.csv'' \<mapsto>
        \<lparr>index = [0],
         columns = [S ''id'', S ''i'', S ''name_tokens'', S ''ingredient_tokens'',
                    S ''steps_tokens'', S ''techniques'', S ''ingredient_ids''],
         rows = [[I 2, I 0, S ''[]'', S ''[]'', S ''[]'', S ''[1, 0, 2]'', S ''[7]'']]\<rparr>,
      ''ingredient_mapping.csv'' \<mapsto>
        \<lparr>index = [0], columns = [S ''id'', S ''replaced''], rows = [[I 7, S ''salt'']]\<rparr>]"

text \<open>Two rows, the first without nutrition.\<close>

definition nutrition_after_gap :: dataframe where
  "nutrition_after_gap =
     \<lparr>index = [0, 1], columns = [S ''recipe_id'', S ''nutrition''],
      rows = [[I 1, NaN], [I 2, S ''[100.0, 20.0, 5.0, 3.0, 10.0, 2.0, 15.0]'']]\<rparr>"

text \<open>Two rows, the second with two nutrition values only.\<close>

definition short_nutrition :: dataframe where
  "short_nutrition =
     \<lparr>index = [0, 1], columns = [S ''nutrition''],
      rows = [[S ''[1.0, 2.0, 3.0, 4.0, 5.0, 6.0, 7.0]''], [S ''[1.0, 2.0]'']]\<rparr>"

text \<open>One row with two nutrition values only.\<close>

definition only_short_nutrition :: dataframe where
  "only_short_nutrition =
     \<lparr>index = [0], columns = [S ''nutrition''], rows = [[S ''[1.0, 2.0]'']]\<rparr>"

text \<open>One interaction, and a recipe whose ingredient list names one ingredient twice.\<close>

definition one_interaction :: dataframe where
  "one_interaction =
     \<lparr>index = [0], columns = [S ''user_id'', S ''recipe_id'', S ''rating''],
      rows = [[I 11, I 2, I 4]]\<rparr>"

definition repeated_ingredient_files :: files where
  "repeated_ingredient_files =
     [''PP_recipes.csv'' \<mapsto>
        \<lparr>index = [0],
         columns = [S ''id'', S ''i'', S ''name_tokens'', S ''ingredient_tokens'',
                    S ''steps_tokens'', S ''techniques'', S ''ingredient_ids''],
         rows = [[I 2, I 0, S ''[]'', S ''[]'', S ''[]'', S ''[1, 0, 2]'', S ''[7, 7]'']]\<rparr>,
      ''ingredient_mapping.csv'' \<mapsto>
        \<lparr>index = [0], columns = [S ''id'', S ''replaced''], rows = [[I 7, S ''salt'']]\<rparr>]"

text \<open>A recipe whose ingredient list is empty.\<close>

definition empty_ingredients_files :: files where
  "empty_ingredients_files =
     [''PP_recipes.csv'' \<mapsto>
        \<lparr>index = [0],
         columns = [S ''id'', S ''i'', S ''name_tokens'', S ''ingredient_tokens'',
                    S ''steps_tokens'', S ''techniques'', S ''ingredient_ids''],
         rows = [[I 2, I 0, S ''[]'', S ''[]'', S ''[]'', S ''[1, 0, 2]'', S ''[]'']]\<rparr>]"

section \<open>Error values: basic facts\<close>

lemma bindE_simps [simp]: "bindE (Inl e) f = Inl e" "bindE (Inr x) f = f x"
  by (simp_all add: bindE_def)

lemma bindE_eq_Inr: "bindE m f = Inr y \<longleftrightarrow> (\<exists>x. m = Inr x \<and> f x = Inr y)"
  by (cases m) simp_all

lemma bindE_eq_Inl: "bindE m f = Inl e \<longleftrightarrow> m = Inl e \<or> (\<exists>x. m = Inr x \<and> f x = Inl e)"
  by (cases m) simp_all

section \<open>The pipeline writes its output last\<close>

text \<open>
  Claim C8. \<^verbatim>\<open>main\<close> writes \<^verbatim>\<open>final_dataset.csv\<close> only after all four stages have returned:
  a run that ends with an exception leaves the files as they were, and a run that ends
  normally has written the table of the last stage, every stage having returned.
\<close>

theorem main_all_or_nothing:
  "(snd (main fs) = Inl e \<longrightarrow> fst (main fs) = fs) \<and>
   (snd (main fs) = Inr () \<longrightarrow>
      (\<exists>filtered_df processed_df longer_processed_df added_nutrition_df.
         filter_interactions fs ''RAW_interactions.csv'' = Inr filtered_df \<and>
         process_recipe_data fs filtered_df ''PP_recipes.csv'' = Inr processed_df \<and>
         process_raw_recipes fs ''RAW_recipes.csv'' processed_df = Inr longer_processed_df \<and>
         process_nutrition_column longer_processed_df = Inr added_nutrition_df \<and>
         fst (main fs) = to_csv fs ''final_dataset.csv'' added_nutrition_df))"
  by (simp add: main_def split: sum.splits)

theorem main_all_or_nothing_witness:
  "snd (main Map.empty) = Inl FileNotFoundError \<and>
   fst (main Map.empty) ''final_dataset.csv'' = None"
proof -
  have f: "snd (main Map.empty) = Inl FileNotFoundError"
    by (simp add: main_def filter_interactions_def read_csv_def)
  with main_all_or_nothing [of Map.empty FileNotFoundError]
  have "fst (main Map.empty) = Map.empty" by blast
  with f show ?thesis by simp
qed

section \<open>Rows dropped before a column-wise concat\<close>

text \<open>
  Claim C5, at an input where it fails. The interaction of user 11 with recipe 2 is the
  one retained row, and its techniques cell is \<^verbatim>\<open>[1, 0, 2]\<close>; the interaction before it has
  no recipe and is dropped. \<^verbatim>\<open>dropna\<close> leaves the retained row its label 1, the technique
  table is labelled from 0, and the concat matches labels: the retained row gets missing
  values in \<^verbatim>\<open>technique_0\<close> to \<^verbatim>\<open>technique_2\<close>, and the values 1, 0, 2 stand in a row
  of their own.
\<close>

theorem process_recipe_data_misaligned:
  "process_recipe_data one_recipe_files two_interactions ''PP_recipes.csv'' =
   Inr \<lparr>index = [1, 0],
        columns = [S ''user_id'', S ''recipe_id'', S ''rating'', S ''id'',
                   S ''recipe_id_mapped'', S ''technique_0'', S ''technique_1'',
                   S ''technique_2'', S ''salt''],
        rows = [[I 11, I 2, I 4, I 2, I 0, NaN, NaN, NaN, NaN],
                [NaN, NaN, NaN, NaN, NaN, I 1, I 0, I 2, I 1]]\<rparr>"
  by code_simp

text \<open>
  Claim C6, at an input where it fails. The row labelled 1 holds the nutrition text of the
  claim and the row before it has no nutrition. After \<^verbatim>\<open>dropna\<close> the row keeps its label 1,
  the nutrition table is labelled from 0, and the concat matches labels: the row gets
  missing values in all seven fields, and the seven values stand in a row of their own.
\<close>

theorem process_nutrition_column_misaligned:
  "process_nutrition_column nutrition_after_gap =
   Inr \<lparr>index = [1, 0],
        columns = [S ''recipe_id'', S ''calories'', S ''percent_fat'', S ''percent_sugar'',
                   S ''percent_sodium'', S ''percent_protein'', S ''percent_sat_fat'',
                   S ''percent_carb''],
        rows = [[I 2, NaN, NaN, NaN, NaN, NaN, NaN, NaN],
                [NaN, F 100, F 20, F 5, F 3, F 10, F 2, F 15]]\<rparr>"
  by code_simp

section \<open>Facts about lists\<close>

lemma mapE_Inr_D: "mapE f xs = Inr ys \<Longrightarrow> list_all2 (\<lambda>x y. f x = Inr y) xs ys"
  by (induction xs arbitrary: ys) (auto split: sum.splits)

lemma mapE_Inr_I: "list_all2 (\<lambda>x y. f x = Inr y) xs ys \<Longrightarrow> mapE f xs = Inr ys"
  by (induction rule: list_all2_induct) simp_all

lemma mapE_eq_Inr: "mapE f xs = Inr ys \<longleftrightarrow> list_all2 (\<lambda>x y. f x = Inr y) xs ys"
  by (blast intro: mapE_Inr_I dest: mapE_Inr_D)

lemma mapE_eq_Inl_D: "mapE f xs = Inl e \<Longrightarrow> \<exists>x\<in>set xs. f x = Inl e"
  by (induction xs) (auto split: sum.splits)

lemma mapE_fails: "x \<in> set xs \<Longrightarrow> f x = Inl e \<Longrightarrow> \<exists>e'. mapE f xs = Inl e'"
  by (induction xs) (auto split: sum.splits)

lemma mapE_length: "mapE f xs = Inr ys \<Longrightarrow> length ys = length xs"
  by (simp add: mapE_eq_Inr list_all2_lengthD)

lemma select_Nil [simp]: "select m [] = []" "select [] xs = []"
  by (simp_all add: select_def)

lemma select_Cons [simp]: "select (b # m) (x # xs) = (if b then x # select m xs else select m xs)"
  by (simp add: select_def)

lemma select_map: "select m (map f xs) = map f (select m xs)"
proof (induction xs arbitrary: m)
  case Nil
  then show ?case by simp
next
  case (Cons x xs)
  then show ?case by (cases m) simp_all
qed

lemma select_map_pred: "select (map P xs) xs = filter P xs"
  by (induction xs) simp_all

lemma select_map_pred': "select (map P (map f xs)) xs = filter (\<lambda>x. P (f x)) xs"
  by (induction xs) simp_all

lemma set_select: "set (select m xs) \<subseteq> set xs"
  by (auto simp: select_def dest: set_zip_leftD)

lemma distinct_select: "distinct xs \<Longrightarrow> distinct (select m xs)"
proof (induction xs arbitrary: m)
  case Nil
  then show ?case by simp
next
  case (Cons x xs)
  then show ?case using set_select [of _ xs] by (cases m) auto
qed

lemma length_select_le: "length (select m xs) \<le> length xs"
proof (induction xs arbitrary: m)
  case Nil
  then show ?case by simp
next
  case (Cons x xs)
  then show ?case by (cases m) (auto simp: le_SucI)
qed

section \<open>Facts about frames\<close>

lemma position_Some_mem: "position c cs = Some j \<Longrightarrow> c \<in> set cs"
  by (induction cs arbitrary: j) (auto split: if_splits option.splits)

lemma position_None_iff: "position c cs = None \<longleftrightarrow> c \<notin> set cs"
  by (induction cs) (auto split: option.splits)

lemma getcol_eq_Inr:
  "getcol df c = Inr col \<longleftrightarrow>
     (\<exists>j. position c (columns df) = Some j \<and> col = map (\<lambda>r. cell_at r j) (rows df))"
  by (auto simp: getcol_def split: option.splits)

lemma getcol_length: "getcol df c = Inr col \<Longrightarrow> length col = length (rows df)"
  by (auto simp: getcol_eq_Inr)

lemma getcol_mask_rows:
  "getcol df c = Inr col \<Longrightarrow> getcol (mask_rows df m) c = Inr (select m col)"
  by (auto simp: getcol_eq_Inr mask_rows_def select_map)

lemma dropna_eq:
  "getcol df c = Inr col \<Longrightarrow> dropna c df = Inr (mask_rows df (map (\<lambda>x. x \<noteq> NaN) col))"
  by (simp add: dropna_def)

lemma columns_setcol:
  "c \<in> set (columns df) \<Longrightarrow> columns (setcol df c vs) = columns df"
  by (auto simp: setcol_def position_None_iff split: option.splits)

lemma index_setcol [simp]: "index (setcol df c vs) = index df"
  by (simp add: setcol_def split: option.splits)

lemma from_lists_names:
  "from_lists data (Some cs) =
     (if data \<noteq> [] \<and> length cs \<noteq> width data then Inl ValueError
      else Inr \<lparr>index = [0..<length data], columns = cs, rows = map (pad (width data)) data\<rparr>)"
  by (simp add: from_lists_def)

lemma concat_columns_ok:
  "distinct (index a) \<Longrightarrow> distinct (index b) \<Longrightarrow>
     \<exists>out. concat_columns a b = Inr out \<and> columns out = columns a @ columns b"
  by (simp add: concat_columns_def Let_def)

lemma drop_columns_ok:
  "set cs \<subseteq> set (columns df) \<Longrightarrow> \<exists>out. drop_columns cs df = Inr out"
  by (auto simp: drop_columns_def Let_def list_ex_iff)

section \<open>Nutrition lists of the wrong length\<close>

lemma nutrition_tail:
  assumes col: "getcol df0 (S ''nutrition'') = Inr col0"
    and dist: "distinct (index df0)"
    and p: "mapE parse_nutrition (filter (\<lambda>x. x \<noteq> NaN) col0) = Inr parsed"
  shows "(\<exists>e. process_nutrition_column df0 = Inl e) \<longleftrightarrow> (parsed \<noteq> [] \<and> width parsed \<noteq> 7)"
proof -
  let ?df1 = "mask_rows df0 (map (\<lambda>x. x \<noteq> NaN) col0)"
  let ?df = "setcol ?df1 (S ''nutrition'') (map L parsed)"
  have d1: "dropna (S ''nutrition'') df0 = Inr ?df1" using col by (rule dropna_eq)
  have c1: "getcol ?df1 (S ''nutrition'') = Inr (filter (\<lambda>x. x \<noteq> NaN) col0)"
    using getcol_mask_rows [OF col] by (simp add: select_map_pred)
  have mem: "S ''nutrition'' \<in> set (columns ?df1)"
    using col by (auto simp: getcol_eq_Inr mask_rows_def dest: position_Some_mem)
  have cols: "columns ?df = columns ?df1" using mem by (rule columns_setcol)
  have di: "distinct (index ?df)" using dist by (simp add: mask_rows_def distinct_select)
  show ?thesis
  proof (cases "parsed \<noteq> [] \<and> width parsed \<noteq> 7")
    case True
    then have "from_lists parsed (Some nutrition_columns) = Inl ValueError"
      by (simp add: from_lists_names nutrition_columns_def)
    then show ?thesis using True d1 c1 p by (simp add: process_nutrition_column_def Let_def)
  next
    case False
    define ndf where "ndf = \<lparr>index = [0..<length parsed], columns = nutrition_columns,
                           rows = map (pad (width parsed)) parsed\<rparr>"
    have fl: "from_lists parsed (Some nutrition_columns) = Inr ndf"
      using False by (auto simp: from_lists_names nutrition_columns_def ndf_def)
    have "distinct (index ndf)" by (simp add: ndf_def)
    from concat_columns_ok [OF di this] obtain out
      where out: "concat_columns ?df ndf = Inr out" "columns out = columns ?df @ columns ndf"
      by blast
    have "set [S ''nutrition''] \<subseteq> set (columns out)" using out(2) cols mem by simp
    from drop_columns_ok [OF this] obtain res where "drop_columns [S ''nutrition''] out = Inr res"
      by blast
    then have "process_nutrition_column df0 = Inr res"
      using d1 c1 p fl out(1) by (simp add: process_nutrition_column_def Let_def)
    then show ?thesis using False by simp
  qed
qed

text \<open>
  Claim C2, as amended. On a table with a nutrition column and distinct row labels,
  \<^verbatim>\<open>process_nutrition_column\<close> fails exactly when a nutrition cell that is not missing
  does not parse into floats, or when there is such a cell and the longest parsed list
  does not have 7 elements. A list shorter than the longest is no failure: it is filled
  up with missing values.
\<close>

theorem process_nutrition_column_fails_iff:
  assumes col: "getcol df0 (S ''nutrition'') = Inr col0"
    and dist: "distinct (index df0)"
  shows "(\<exists>e. process_nutrition_column df0 = Inl e) \<longleftrightarrow>
         (\<exists>x\<in>set col0. x \<noteq> NaN \<and> (\<exists>e. parse_nutrition x = Inl e)) \<or>
         (\<exists>parsed. mapE parse_nutrition (filter (\<lambda>x. x \<noteq> NaN) col0) = Inr parsed \<and>
                    parsed \<noteq> [] \<and> width parsed \<noteq> 7)"
proof (cases "mapE parse_nutrition (filter (\<lambda>x. x \<noteq> NaN) col0)")
  case (Inl e)
  let ?df1 = "mask_rows df0 (map (\<lambda>x. x \<noteq> NaN) col0)"
  have d1: "dropna (S ''nutrition'') df0 = Inr ?df1" using col by (rule dropna_eq)
  have c1: "getcol ?df1 (S ''nutrition'') = Inr (filter (\<lambda>x. x \<noteq> NaN) col0)"
    using getcol_mask_rows [OF col] by (simp add: select_map_pred)
  have "process_nutrition_column df0 = Inl e"
    using d1 c1 Inl by (simp add: process_nutrition_column_def)
  moreover from mapE_eq_Inl_D [OF Inl]
  have "\<exists>x\<in>set col0. x \<noteq> NaN \<and> (\<exists>e. parse_nutrition x = Inl e)" by auto
  ultimately show ?thesis by blast
next
  case (Inr parsed)
  have "\<not> (\<exists>x\<in>set col0. x \<noteq> NaN \<and> (\<exists>e. parse_nutrition x = Inl e))"
  proof
    assume "\<exists>x\<in>set col0. x \<noteq> NaN \<and> (\<exists>e. parse_nutrition x = Inl e)"
    then obtain x e where "x \<in> set (filter (\<lambda>x. x \<noteq> NaN) col0)" "parse_nutrition x = Inl e"
      by auto
    from mapE_fails [where f = parse_nutrition, OF this] show False using Inr by simp
  qed
  then show ?thesis using nutrition_tail [OF col dist Inr] Inr by auto
qed

theorem process_nutrition_column_fails_iff_witness:
  "\<exists>e. process_nutrition_column only_short_nutrition = Inl e"
proof -
  have c: "getcol only_short_nutrition (S ''nutrition'') = Inr [S ''[1.0, 2.0]'']"
    by code_simp
  have d: "distinct (index only_short_nutrition)" by code_simp
  have p: "mapE parse_nutrition (filter (\<lambda>x. x \<noteq> NaN) [S ''[1.0, 2.0]'']) = Inr [[F 1, F 2]]"
    by code_simp
  have w: "[[F 1, F 2]] \<noteq> [] \<and> width [[F 1, F 2]] \<noteq> 7" by code_simp
  show ?thesis using process_nutrition_column_fails_iff [OF c d] p w by blast
qed

text \<open>
  Claim C2 as stated fails: the second nutrition cell parses to two floats, and the
  function returns a table whose second row has missing values in the last five fields.
\<close>

theorem short_nutrition_accepted:
  "parse_nutrition (S ''[1.0, 2.0]'') = Inr [F 1, F 2] \<and>
   process_nutrition_column short_nutrition =
   Inr \<lparr>index = [0, 1],
        columns = [S ''calories'', S ''percent_fat'', S ''percent_sugar'', S ''percent_sodium'',
                   S ''percent_protein'', S ''percent_sat_fat'', S ''percent_carb''],
        rows = [[F 1, F 2, F 3, F 4, F 5, F 6, F 7],
                [F 1, F 2, NaN, NaN, NaN, NaN, NaN]]\<rparr>"
  by code_simp

section \<open>The one-hot table counts each ingredient of a row once\<close>

lemma uniques_distinct: "distinct xs \<Longrightarrow> uniques xs = xs"
  by (simp add: uniques_def distinct_remdups_id)

lemma set_uniques [simp]: "set (uniques xs) = set xs"
  by (simp add: uniques_def)

lemma distinct_uniques [simp]: "distinct (uniques xs)"
  by (simp add: uniques_def)

lemma remdups_append_filter:
  "remdups (xs @ ys) = filter (\<lambda>x. x \<notin> set ys) (remdups xs) @ remdups ys"
  by (induction xs) auto

lemma uniques_append:
  "uniques (xs @ ys) = uniques xs @ filter (\<lambda>y. y \<notin> set xs) (uniques ys)"
  by (simp add: uniques_def remdups_append_filter rev_filter)

lemma uniques_copies:
  "distinct ys \<Longrightarrow> ds \<noteq> [] \<Longrightarrow> uniques (concat (map (\<lambda>d. ys) ds)) = ys"
proof (induction ds)
  case Nil
  then show ?case by simp
next
  case (Cons d ds)
  have "filter (\<lambda>y. y \<notin> set ys) (uniques (concat (map (\<lambda>d. ys) ds))) = []"
    by (auto simp: filter_empty_conv)
  then show ?case using Cons.prems by (simp add: uniques_append uniques_distinct)
qed

lemma foldl_add_id:
  "distinct u \<Longrightarrow> distinct (foldl add_id u ids) \<and> set (foldl add_id u ids) = set u \<union> set ids"
  by (induction ids arbitrary: u) (auto simp: add_id_def)

lemma collect_ingredient_ids_Inr:
  "collect_ingredient_ids u col = Inr u' \<Longrightarrow> distinct u \<Longrightarrow>
     distinct u' \<and> set u \<subseteq> set u' \<and>
     (\<forall>x\<in>set col. \<exists>ids. parse_ingredient_ids x = Inr ids \<and> set ids \<subseteq> set u')"
proof (induction col arbitrary: u)
  case Nil
  then show ?case by simp
next
  case (Cons x xs)
  from Cons.prems(1) obtain ids where p: "parse_ingredient_ids x = Inr ids"
    and c: "collect_ingredient_ids (foldl add_id u ids) xs = Inr u'"
    by (auto split: sum.splits)
  from foldl_add_id [OF Cons.prems(2), of ids]
  have d: "distinct (foldl add_id u ids)" and s: "set (foldl add_id u ids) = set u \<union> set ids"
    by simp_all
  from Cons.IH [OF c d] s p show ?case by auto
qed

lemma map_of_ingredient_row:
  "i \<in> set u \<Longrightarrow>
     map_of (ingredient_row u ids) (I i) = Some (I (if i \<in> set ids then 1 else 0))"
  by (induction u) (auto simp: ingredient_row_def)

lemma keys_ingredient_row: "map fst (ingredient_row u ids) = map I u"
  by (simp add: ingredient_row_def comp_def)

lemma row_sum_indicators:
  "distinct u \<Longrightarrow>
     row_sum (map (\<lambda>i. I (if i \<in> set ids then 1 else 0)) u) = int (card (set u \<inter> set ids))"
proof (induction u)
  case Nil
  then show ?case by (simp add: row_sum_def)
next
  case (Cons a u)
  then have "row_sum (map (\<lambda>i. I (if i \<in> set ids then 1 else 0)) u) = int (card (set u \<inter> set ids))"
    by simp
  moreover have "a \<notin> set u" using Cons.prems by simp
  ultimately show ?case by (simp add: row_sum_def cell_value_def)
qed

lemma one_hot_ingredients_rows:
  assumes "one_hot_ingredients col = Inr df"
  shows "\<exists>u idss. distinct u \<and>
           list_all2 (\<lambda>x ids. parse_ingredient_ids x = Inr ids \<and> set ids \<subseteq> set u) col idss \<and>
           index df = [0..<length col] \<and>
           columns df = (if col = [] then [] else map I u) \<and>
           rows df = map (\<lambda>ids. map (\<lambda>i. I (if i \<in> set ids then 1 else 0)) u) idss"
proof -
  from assms obtain u irows where u: "collect_ingredient_ids [] col = Inr u"
    and ir: "mapE (\<lambda>x. bindE (parse_ingredient_ids x) (\<lambda>ids. Inr (ingredient_row u ids))) col
             = Inr irows"
    and df: "df = fillna (I 0) (from_dicts irows)"
    by (auto simp: one_hot_ingredients_def bindE_eq_Inr)
  from collect_ingredient_ids_Inr [OF u]
  have du: "distinct u"
    and pu: "\<forall>x\<in>set col. \<exists>ids. parse_ingredient_ids x = Inr ids \<and> set ids \<subseteq> set u"
    by simp_all
  define g where "g x = (case parse_ingredient_ids x of Inr ids \<Rightarrow> ids | Inl e \<Rightarrow> [])" for x
  define idss where "idss = map g col"
  have ev: "parse_ingredient_ids x = Inr (g x) \<and> set (g x) \<subseteq> set u" if "x \<in> set col" for x
  proof -
    from pu that obtain ids where "parse_ingredient_ids x = Inr ids" "set ids \<subseteq> set u" by blast
    then show ?thesis by (simp add: g_def)
  qed
  have l2: "list_all2 (\<lambda>x ids. parse_ingredient_ids x = Inr ids \<and> set ids \<subseteq> set u) col idss"
    unfolding idss_def list_all2_map2 using ev by (simp add: list_all2_same)
  have "list_all2 (\<lambda>x y. bindE (parse_ingredient_ids x) (\<lambda>ids. Inr (ingredient_row u ids)) = Inr y)
          col (map (ingredient_row u) idss)"
    unfolding idss_def list_all2_map2 using ev by (simp add: list_all2_same)
  then have "mapE (\<lambda>x. bindE (parse_ingredient_ids x) (\<lambda>ids. Inr (ingredient_row u ids))) col
             = Inr (map (ingredient_row u) idss)"
    by (rule mapE_Inr_I)
  with ir have irows: "irows = map (ingredient_row u) idss" by simp
  have len: "length idss = length col" by (simp add: idss_def)
  have keys: "concat (map (map fst) irows) = concat (map (\<lambda>d. map I u) idss)"
    by (simp add: irows comp_def keys_ingredient_row)
  have dI: "distinct (map I u)" using du by (simp add: distinct_map inj_on_def)
  have cols: "uniques (concat (map (map fst) irows)) = (if col = [] then [] else map I u)"
  proof (cases "col = []")
    case True
    then show ?thesis using len by (simp add: irows uniques_def)
  next
    case False
    then have "idss \<noteq> []" using len by auto
    from uniques_copies [OF dI this] show ?thesis using False by (simp add: keys)
  qed
  have rws: "rows (from_dicts irows) = map (\<lambda>ids. map (\<lambda>i. I (if i \<in> set ids then 1 else 0)) u) idss"
  proof (cases "col = []")
    case True
    then show ?thesis using len by (simp add: from_dicts_def irows)
  next
    case False
    then show ?thesis using cols by (auto simp: from_dicts_def Let_def irows map_of_ingredient_row)
  qed
  have "rows df = map (\<lambda>ids. map (\<lambda>i. I (if i \<in> set ids then 1 else 0)) u) idss"
    by (simp add: df fillna_def rws comp_def)
  moreover have "index df = [0..<length col]"
    by (simp add: df fillna_def from_dicts_def Let_def irows len)
  moreover have "columns df = (if col = [] then [] else map I u)"
    using cols by (simp add: df fillna_def from_dicts_def Let_def)
  ultimately show ?thesis using du l2 by blast
qed

text \<open>
  Claim C3, as amended. In the one-hot table that \<^verbatim>\<open>process_recipe_data\<close> builds from the
  ingredient column, the indicators of a row sum to the number of distinct ingredient ids
  in the list of that row; that is the length of the list when no id is repeated in it.
\<close>

theorem one_hot_row_sum:
  assumes "one_hot_ingredients col = Inr df" and "k < length col"
  shows "\<exists>ids. parse_ingredient_ids (col ! k) = Inr ids \<and>
           row_sum (rows df ! k) = int (card (set ids)) \<and>
           (distinct ids \<longrightarrow> row_sum (rows df ! k) = int (length ids))"
proof -
  from one_hot_ingredients_rows [OF assms(1)] obtain u idss where du: "distinct u"
    and l2: "list_all2 (\<lambda>x ids. parse_ingredient_ids x = Inr ids \<and> set ids \<subseteq> set u) col idss"
    and rws: "rows df = map (\<lambda>ids. map (\<lambda>i. I (if i \<in> set ids then 1 else 0)) u) idss"
    by blast
  have len: "length idss = length col" using l2 by (simp add: list_all2_lengthD)
  from list_all2_nthD [OF l2 assms(2)]
  have p: "parse_ingredient_ids (col ! k) = Inr (idss ! k)"
    and sub: "set (idss ! k) \<subseteq> set u"
    by simp_all
  have "row_sum (rows df ! k) = int (card (set u \<inter> set (idss ! k)))"
    using assms(2) len by (simp add: rws row_sum_indicators [OF du])
  moreover have "set u \<inter> set (idss ! k) = set (idss ! k)" using sub by auto
  ultimately have "row_sum (rows df ! k) = int (card (set (idss ! k)))" by simp
  with p show ?thesis by (auto simp: distinct_card)
qed

theorem one_hot_row_sum_witness:
  "one_hot_ingredients [S ''[5]'', S ''[7]''] =
     Inr \<lparr>index = [0, 1], columns = [I 5, I 7], rows = [[I 1, I 0], [I 0, I 1]]\<rparr> \<and>
   parse_ingredient_ids (S ''[5]'') = Inr [5] \<and>
   row_sum [I 1, I 0] = int (card {5::int}) \<and> row_sum [I 1, I 0] = int (length [5::int])"
proof -
  have o: "one_hot_ingredients [S ''[5]'', S ''[7]''] =
           Inr \<lparr>index = [0, 1], columns = [I 5, I 7], rows = [[I 1, I 0], [I 0, I 1]]\<rparr>"
    by code_simp
  have p: "parse_ingredient_ids (S ''[5]'') = Inr [5]" by code_simp
  from one_hot_row_sum [OF o, of 0] p o show ?thesis by simp
qed

text \<open>
  Claim C3 as stated fails: the list \<^verbatim>\<open>[7, 7]\<close> has two ingredient ids, and the one
  indicator of the row is 1, in the one-hot table and in the table that
  \<^verbatim>\<open>process_recipe_data\<close> returns.
\<close>

theorem repeated_ingredient_counted_once:
  "parse_ingredient_ids (S ''[7, 7]'') = Inr [7, 7] \<and>
   one_hot_ingredients [S ''[7, 7]''] = Inr \<lparr>index = [0], columns = [I 7], rows = [[I 1]]\<rparr> \<and>
   row_sum [I 1] = 1 \<and> length [7, 7 :: int] = 2 \<and>
   process_recipe_data repeated_ingredient_files one_interaction ''PP_recipes.csv'' =
     Inr \<lparr>index = [0],
          columns = [S ''user_id'', S ''recipe_id'', S ''rating'', S ''id'',
                     S ''recipe_id_mapped'', S ''technique_0'', S ''technique_1'',
                     S ''technique_2'', S ''salt''],
          rows = [[I 11, I 2, I 4, I 2, I 0, I 1, I 0, I 2, I 1]]\<rparr>"
  by code_simp

section \<open>An empty ingredient list ends the run\<close>

lemma position_Some_nth: "position c cs = Some j \<Longrightarrow> j < length cs \<and> cs ! j = c"
  by (induction cs arbitrary: j) (auto split: if_splits option.splits)

lemma cell_at_update: "j' \<noteq> j \<Longrightarrow> cell_at (r[j := v]) j' = cell_at r j'"
  by (simp add: cell_at_def)

lemma map_cell_at_map2_update:
  "j' \<noteq> j \<Longrightarrow> length vs = length rs \<Longrightarrow>
     map ((\<lambda>r. cell_at r j') \<circ> (\<lambda>(r, v). r[j := v])) (zip rs vs) = map (\<lambda>r. cell_at r j') rs"
proof (induction rs arbitrary: vs)
  case Nil
  then show ?case by simp
next
  case (Cons r rs)
  then show ?case by (cases vs) (simp_all add: cell_at_update)
qed

lemma getcol_setcol_other:
  assumes "c \<in> set (columns df)" and "c' \<noteq> c" and "length vs = length (rows df)"
  shows "getcol (setcol df c vs) c' = getcol df c'"
proof -
  from assms(1) obtain j where j: "position c (columns df) = Some j"
    by (cases "position c (columns df)") (auto simp: position_None_iff)
  show ?thesis
  proof (cases "position c' (columns df)")
    case None
    then show ?thesis using j by (simp add: getcol_def setcol_def)
  next
    case (Some j')
    with j assms(2) have "j' \<noteq> j" by (auto dest!: position_Some_nth)
    then show ?thesis using j Some assms(3)
      by (simp add: getcol_def setcol_def map_cell_at_map2_update)
  qed
qed

lemma py_int_error: "py_int s = Inl e \<Longrightarrow> e = ValueError"
  by (auto simp: py_int_def Let_def split: prod.splits option.splits)

lemma parse_ingredient_ids_text_error: "parse_ingredient_ids (S s) = Inl e \<Longrightarrow> e = ValueError"
  by (auto simp: parse_ingredient_ids_def dest!: mapE_eq_Inl_D py_int_error)

lemma parse_empty_list: "parse_ingredient_ids (S ''[]'') = Inl ValueError"
  by code_simp

lemma collect_ingredient_ids_fails:
  "x \<in> set col \<Longrightarrow> parse_ingredient_ids x = Inl e \<Longrightarrow>
     \<exists>e'. collect_ingredient_ids u col = Inl e'"
  by (induction col arbitrary: u) (auto split: sum.splits)

lemma collect_ingredient_ids_text_error:
  "collect_ingredient_ids u col = Inl e \<Longrightarrow> \<forall>x\<in>set col. \<exists>s. x = S s \<Longrightarrow> e = ValueError"
  by (induction col arbitrary: u) (auto split: sum.splits dest: parse_ingredient_ids_text_error)

lemma one_hot_ingredients_empty_list:
  assumes "S ''[]'' \<in> set col"
  shows "\<exists>e. one_hot_ingredients col = Inl e \<and> ((\<forall>x\<in>set col. \<exists>s. x = S s) \<longrightarrow> e = ValueError)"
proof -
  from collect_ingredient_ids_fails [OF assms parse_empty_list]
  obtain e where e: "collect_ingredient_ids [] col = Inl e" by blast
  then have "one_hot_ingredients col = Inl e" by (simp add: one_hot_ingredients_def)
  with e show ?thesis by (blast dest: collect_ingredient_ids_text_error)
qed

lemma expand_techniques_ingredient_ids:
  assumes "expand_techniques merged_df0 = Inr (merged_df, processed_df)"
  shows "getcol merged_df (S ''ingredient_ids'') = getcol merged_df0 (S ''ingredient_ids'')"
proof -
  from assms obtain col parsed
    where c: "getcol merged_df0 (S ''techniques'') = Inr col"
      and p: "mapE parse_techniques col = Inr parsed"
      and m: "merged_df = setcol merged_df0 (S ''techniques'') (map L parsed)"
    by (auto simp: expand_techniques_def bindE_eq_Inr Let_def)
  have mem: "S ''techniques'' \<in> set (columns merged_df0)"
    using c by (auto simp: getcol_eq_Inr dest: position_Some_mem)
  have "length (map L parsed) = length (rows merged_df0)"
    using mapE_length [OF p] getcol_length [OF c] by simp
  from getcol_setcol_other [OF mem _ this, of "S ''ingredient_ids''"] show ?thesis
    by (simp add: m)
qed

text \<open>
  Claim C9. When a row that survived the join and the \<^verbatim>\<open>dropna\<close> of lines 52 to 64 has the
  ingredient cell \<^verbatim>\<open>[]\<close>, \<^verbatim>\<open>process_recipe_data\<close> raises, and so does \<^verbatim>\<open>main\<close>, which
  writes nothing. The exception is the \<^verbatim>\<open>ValueError\<close> of \<^verbatim>\<open>int('')\<close> whenever the
  techniques were expanded and every ingredient cell is a text.
\<close>

theorem empty_ingredient_list_aborts:
  assumes m: "merge_recipes fs filtered_df recipe_csv = Inr merged_df0"
    and c: "getcol merged_df0 (S ''ingredient_ids'') = Inr col"
    and e: "S ''[]'' \<in> set col"
  shows "(\<exists>e. process_recipe_data fs filtered_df recipe_csv = Inl e) \<and>
         ((\<exists>merged_df processed_df. expand_techniques merged_df0 = Inr (merged_df, processed_df)) \<and>
          (\<forall>x\<in>set col. \<exists>s. x = S s) \<longrightarrow>
            process_recipe_data fs filtered_df recipe_csv = Inl ValueError) \<and>
         (filter_interactions fs ''RAW_interactions.csv'' = Inr filtered_df \<and>
          recipe_csv = ''PP_recipes.csv'' \<longrightarrow> (\<exists>e. main fs = (fs, Inl e)))"
proof -
  from one_hot_ingredients_empty_list [OF e] obtain e1
    where e1: "one_hot_ingredients col = Inl e1"
      and v: "(\<forall>x\<in>set col. \<exists>s. x = S s) \<longrightarrow> e1 = ValueError"
    by blast
  have run: "process_recipe_data fs filtered_df recipe_csv =
             (case expand_techniques merged_df0 of Inl e' \<Rightarrow> Inl e' | Inr mp \<Rightarrow> Inl e1)"
  proof (cases "expand_techniques merged_df0")
    case (Inl e')
    then show ?thesis using m by (simp add: process_recipe_data_def)
  next
    case (Inr mp)
    obtain merged_df processed_df where mp: "mp = (merged_df, processed_df)" by (cases mp)
    from expand_techniques_ingredient_ids [OF Inr [unfolded mp]] c
    have "getcol merged_df (S ''ingredient_ids'') = Inr col" by simp
    then show ?thesis using m Inr mp e1 by (simp add: process_recipe_data_def)
  qed
  then have fails: "\<exists>e. process_recipe_data fs filtered_df recipe_csv = Inl e"
    by (cases "expand_techniques merged_df0") simp_all
  moreover have "(\<exists>merged_df processed_df. expand_techniques merged_df0 = Inr (merged_df, processed_df)) \<and>
          (\<forall>x\<in>set col. \<exists>s. x = S s) \<longrightarrow>
            process_recipe_data fs filtered_df recipe_csv = Inl ValueError"
    using run v by auto
  moreover have "filter_interactions fs ''RAW_interactions.csv'' = Inr filtered_df \<and>
          recipe_csv = ''PP_recipes.csv'' \<longrightarrow> (\<exists>e. main fs = (fs, Inl e))"
    using fails by (auto simp: main_def)
  ultimately show ?thesis by blast
qed

theorem empty_ingredient_list_aborts_witness:
  "process_recipe_data empty_ingredients_files one_interaction ''PP_recipes.csv'' = Inl ValueError"
proof -
  let ?cols = "[S ''user_id'', S ''recipe_id'', S ''rating'', S ''id'',
                S ''recipe_id_mapped'', S ''techniques'', S ''ingredient_ids'']"
  let ?m0 = "\<lparr>index = [0], columns = ?cols,
              rows = [[I 11, I 2, I 4, I 2, I 0, S ''[1, 0, 2]'', S ''[]'']]\<rparr>"
  have m: "merge_recipes empty_ingredients_files one_interaction ''PP_recipes.csv'' = Inr ?m0"
    by code_simp
  have c: "getcol ?m0 (S ''ingredient_ids'') = Inr [S ''[]'']" by code_simp
  have e: "S ''[]'' \<in> set [S ''[]'']" by simp
  have x: "expand_techniques ?m0 =
           Inr (\<lparr>index = [0], columns = ?cols,
                 rows = [[I 11, I 2, I 4, I 2, I 0, L [I 1, I 0, I 2], S ''[]'']]\<rparr>,
                \<lparr>index = [0],
                 columns = [S ''user_id'', S ''recipe_id'', S ''rating'', S ''id'',
                            S ''recipe_id_mapped'', S ''ingredient_ids'', S ''technique_0'',
                            S ''technique_1'', S ''technique_2''],
                 rows = [[I 11, I 2, I 4, I 2, I 0, S ''[]'', I 1, I 0, I 2]]\<rparr>)"
    by code_simp
  from empty_ingredient_list_aborts [OF m c e] x show ?thesis by simp
qed

end
